theory Spec2Isabelle
  imports Complex_Main
begin

section \<open>JavaScript numbers\<close>

text \<open>
  The program computes with JavaScript numbers (IEEE-754 doubles): \<open>NaN\<close>, the two
  infinities, and the finite doubles, which are modelled by the reals they denote. The
  model has a single zero (the positive one).

  Two arithmetics are defined on them. The first one, \<open>js_add\<close> to \<open>Math_pow\<close>, is
  exact on finite numbers: it gives the result before rounding, with the special values
  propagating as IEEE-754 prescribes. The second one, \<open>fl_add\<close> to \<open>fl_div\<close>, is the
  arithmetic of the doubles: the exact result rounded to the nearest double, to
  \<open>Infinity\<close> on overflow and to zero on underflow.
\<close>

datatype jsnum = NaN | PosInf | NegInf | Fin real

fun isNaN :: "jsnum \<Rightarrow> bool" where
  "isNaN NaN = True"
| "isNaN _ = False"

fun isFinite :: "jsnum \<Rightarrow> bool" where
  "isFinite (Fin x) = True"
| "isFinite _ = False"

fun js_neg :: "jsnum \<Rightarrow> jsnum" where
  "js_neg NaN = NaN"
| "js_neg PosInf = NegInf"
| "js_neg NegInf = PosInf"
| "js_neg (Fin x) = Fin (- x)"

text \<open>\<open>a + b\<close>.\<close>

fun js_add :: "jsnum \<Rightarrow> jsnum \<Rightarrow> jsnum" where
  "js_add (Fin x) (Fin y) = Fin (x + y)"
| "js_add NaN b = NaN"
| "js_add a NaN = NaN"
| "js_add PosInf NegInf = NaN"
| "js_add NegInf PosInf = NaN"
| "js_add PosInf b = PosInf"
| "js_add a PosInf = PosInf"
| "js_add NegInf b = NegInf"
| "js_add a NegInf = NegInf"

text \<open>\<open>a - b\<close>.\<close>

definition js_sub :: "jsnum \<Rightarrow> jsnum \<Rightarrow> jsnum" where
  "js_sub a b = js_add a (js_neg b)"

text \<open>\<open>a * b\<close>: infinity times zero is \<open>NaN\<close>, otherwise the signs multiply.\<close>

fun js_mul :: "jsnum \<Rightarrow> jsnum \<Rightarrow> jsnum" where
  "js_mul (Fin x) (Fin y) = Fin (x * y)"
| "js_mul NaN b = NaN"
| "js_mul a NaN = NaN"
| "js_mul PosInf PosInf = PosInf"
| "js_mul PosInf NegInf = NegInf"
| "js_mul NegInf PosInf = NegInf"
| "js_mul NegInf NegInf = PosInf"
| "js_mul PosInf (Fin y) = (if y = 0 then NaN else if 0 < y then PosInf else NegInf)"
| "js_mul NegInf (Fin y) = (if y = 0 then NaN else if 0 < y then NegInf else PosInf)"
| "js_mul (Fin x) PosInf = (if x = 0 then NaN else if 0 < x then PosInf else NegInf)"
| "js_mul (Fin x) NegInf = (if x = 0 then NaN else if 0 < x then NegInf else PosInf)"

text \<open>
  \<open>a / b\<close>: zero by zero and infinity by infinity are \<open>NaN\<close>, a non-zero finite
  number by (positive) zero is an infinity of its sign, a finite number by an infinity
  is zero.
\<close>

fun js_div :: "jsnum \<Rightarrow> jsnum \<Rightarrow> jsnum" where
  "js_div (Fin x) (Fin y) =
     (if y \<noteq> 0 then Fin (x / y)
      else if x = 0 then NaN else if 0 < x then PosInf else NegInf)"
| "js_div NaN b = NaN"
| "js_div a NaN = NaN"
| "js_div PosInf PosInf = NaN"
| "js_div PosInf NegInf = NaN"
| "js_div NegInf PosInf = NaN"
| "js_div NegInf NegInf = NaN"
| "js_div PosInf (Fin y) = (if 0 \<le> y then PosInf else NegInf)"
| "js_div NegInf (Fin y) = (if 0 \<le> y then NegInf else PosInf)"
| "js_div (Fin x) PosInf = Fin 0"
| "js_div (Fin x) NegInf = Fin 0"

text \<open>\<open>a < b\<close>, \<open>a > b\<close> and \<open>a <= b\<close>: every comparison with \<open>NaN\<close> is false.\<close>

fun js_lt :: "jsnum \<Rightarrow> jsnum \<Rightarrow> bool" where
  "js_lt (Fin x) (Fin y) = (x < y)"
| "js_lt NaN b = False"
| "js_lt a NaN = False"
| "js_lt PosInf b = False"
| "js_lt a PosInf = True"
| "js_lt a NegInf = False"
| "js_lt NegInf b = True"

definition js_gt :: "jsnum \<Rightarrow> jsnum \<Rightarrow> bool" where
  "js_gt a b = js_lt b a"


text \<open>\<open>Math.log\<close>, \<open>Math.exp\<close>, \<open>Math.sqrt\<close>, exact on finite numbers.\<close>

fun Math_log :: "jsnum \<Rightarrow> jsnum" where
  "Math_log NaN = NaN"
| "Math_log PosInf = PosInf"
| "Math_log NegInf = NaN"
| "Math_log (Fin x) = (if x < 0 then NaN else if x = 0 then NegInf else Fin (ln x))"

fun Math_exp :: "jsnum \<Rightarrow> jsnum" where
  "Math_exp NaN = NaN"
| "Math_exp PosInf = PosInf"
| "Math_exp NegInf = Fin 0"
| "Math_exp (Fin x) = Fin (exp x)"

fun Math_sqrt :: "jsnum \<Rightarrow> jsnum" where
  "Math_sqrt NaN = NaN"
| "Math_sqrt PosInf = PosInf"
| "Math_sqrt NegInf = NaN"
| "Math_sqrt (Fin x) = (if x < 0 then NaN else Fin (sqrt x))"

text \<open>
  \<open>Math.pow(base, k)\<close> for an exponent \<open>k\<close> that is a natural number (the program's
  only exponent is 2): anything to the power 0 is 1, also \<open>NaN\<close>.
\<close>

fun Math_pow :: "jsnum \<Rightarrow> nat \<Rightarrow> jsnum" where
  "Math_pow (Fin x) k = Fin (x ^ k)"
| "Math_pow NaN k = (if k = 0 then Fin 1 else NaN)"
| "Math_pow PosInf k = (if k = 0 then Fin 1 else PosInf)"
| "Math_pow NegInf k = (if k = 0 then Fin 1 else if even k then PosInf else NegInf)"

text \<open>
  \<open>v || d\<close> where \<open>v\<close> is a number or \<open>undefined\<close> (\<open>None\<close>): the default is taken
  when \<open>v\<close> is \<open>undefined\<close>, zero or \<open>NaN\<close>.
\<close>

definition js_or :: "jsnum option \<Rightarrow> jsnum \<Rightarrow> jsnum" where
  "js_or v d = (case v of None \<Rightarrow> d | Some x \<Rightarrow> if x = NaN \<or> x = Fin 0 then d else x)"

subsection \<open>Rounding to a double\<close>

text \<open>
  The binary exponent of the binade of \<open>x\<close>, which is at least that of the subnormal
  numbers, and the distance of two neighbouring doubles in that binade (53 significant
  bits).
\<close>

definition binade :: "real \<Rightarrow> int" where
  "binade x = max \<lfloor>log 2 \<bar>x\<bar>\<rfloor> (- 1022)"

definition quantum :: "real \<Rightarrow> real" where
  "quantum x = 2 powi (binade x - 52)"

text \<open>The nearest integer, the even one of the two when \<open>y\<close> is half way.\<close>

definition round_half_even :: "real \<Rightarrow> int" where
  "round_half_even y =
     (let f = \<lfloor>y\<rfloor>; d = y - of_int f
      in if d < 1 / 2 then f else if 1 / 2 < d then f + 1 else if even f then f else f + 1)"

text \<open>
  The Number value for a real \<open>x\<close> (round to nearest, ties to even): the multiple of the
  quantum that is nearest to \<open>x\<close>, and an infinity where that reaches \<open>2 ^ 1024\<close>.
\<close>

definition double_of :: "real \<Rightarrow> jsnum" where
  "double_of x =
     (if x = 0 then Fin 0
      else
        let y = of_int (round_half_even (x / quantum x)) * quantum x
        in if 2 powi 1024 \<le> \<bar>y\<bar> then (if 0 < x then PosInf else NegInf) else Fin y)"

text \<open>
  The operators \<open>+\<close>, \<open>-\<close>, \<open>*\<close> and \<open>/\<close> on doubles: IEEE-754 defines them as the
  exact result, rounded.
\<close>

definition fl_round :: "jsnum \<Rightarrow> jsnum" where
  "fl_round a = (case a of Fin x \<Rightarrow> double_of x | _ \<Rightarrow> a)"

definition fl_add :: "jsnum \<Rightarrow> jsnum \<Rightarrow> jsnum" where
  "fl_add a b = fl_round (js_add a b)"

definition fl_sub :: "jsnum \<Rightarrow> jsnum \<Rightarrow> jsnum" where
  "fl_sub a b = fl_round (js_sub a b)"

definition fl_mul :: "jsnum \<Rightarrow> jsnum \<Rightarrow> jsnum" where
  "fl_mul a b = fl_round (js_mul a b)"

definition fl_div :: "jsnum \<Rightarrow> jsnum \<Rightarrow> jsnum" where
  "fl_div a b = fl_round (js_div a b)"

section \<open>The critical-value table: \<open>getTCritical\<close>\<close>

text \<open>
  Reading a property of \<open>undefined\<close> throws a \<open>TypeError\<close>: this is what
  \<open>tValues[df_key][alpha]\<close> does when \<open>df_key\<close> is not a key of the table.
\<close>

datatype error = TypeError

text \<open>
  The object literal \<open>tValues\<close>: an object looks a number up under its canonical
  string, which identifies the number, so the table is an association list keyed by
  numbers.
\<close>

definition tValues :: "(int \<times> (jsnum \<times> jsnum) list) list" where
  "tValues =
    [(1, [(Fin 0.20, Fin 3.078), (Fin 0.10, Fin 6.314), (Fin 0.05, Fin 12.706)]),
     (2, [(Fin 0.20, Fin 1.886), (Fin 0.10, Fin 2.920), (Fin 0.05, Fin 4.303)]),
     (3, [(Fin 0.20, Fin 1.638), (Fin 0.10, Fin 2.353), (Fin 0.05, Fin 3.182)]),
     (4, [(Fin 0.20, Fin 1.533), (Fin 0.10, Fin 2.132), (Fin 0.05, Fin 2.776)]),
     (5, [(Fin 0.20, Fin 1.476), (Fin 0.10, Fin 2.015), (Fin 0.05, Fin 2.571)]),
     (6, [(Fin 0.20, Fin 1.440), (Fin 0.10, Fin 1.943), (Fin 0.05, Fin 2.447)]),
     (7, [(Fin 0.20, Fin 1.415), (Fin 0.10, Fin 1.895), (Fin 0.05, Fin 2.365)]),
     (8, [(Fin 0.20, Fin 1.397), (Fin 0.10, Fin 1.860), (Fin 0.05, Fin 2.306)]),
     (9, [(Fin 0.20, Fin 1.383), (Fin 0.10, Fin 1.833), (Fin 0.05, Fin 2.262)]),
     (10, [(Fin 0.20, Fin 1.372), (Fin 0.10, Fin 1.812), (Fin 0.05, Fin 2.228)]),
     (15, [(Fin 0.20, Fin 1.341), (Fin 0.10, Fin 1.753), (Fin 0.05, Fin 2.131)]),
     (20, [(Fin 0.20, Fin 1.325), (Fin 0.10, Fin 1.725), (Fin 0.05, Fin 2.086)]),
     (25, [(Fin 0.20, Fin 1.316), (Fin 0.10, Fin 1.708), (Fin 0.05, Fin 2.060)]),
     (30, [(Fin 0.20, Fin 1.310), (Fin 0.10, Fin 1.697), (Fin 0.05, Fin 2.042)])]"

text \<open>\<open>const alpha = (100 - confidenceLevel) / 100\<close>.\<close>

definition alpha :: "jsnum \<Rightarrow> jsnum" where
  "alpha confidenceLevel = js_div (js_sub (Fin 100) confidenceLevel) (Fin 100)"

text \<open>
  \<open>const df_key = df <= 30 ? (df <= 10 ? df : (df <= 15 ? 15 : (df <= 20 ? 20 :
  (df <= 25 ? 25 : 30)))) : 30\<close>, for an integer \<open>df\<close>.
\<close>

definition df_key :: "int \<Rightarrow> int" where
  "df_key df =
     (if df \<le> 30
      then (if df \<le> 10 then df
            else (if df \<le> 15 then 15 else (if df \<le> 20 then 20 else (if df \<le> 25 then 25 else 30))))
      else 30)"

text \<open>\<open>return tValues[df_key][alpha] || 2.042\<close>.\<close>

definition getTCritical :: "int \<Rightarrow> jsnum \<Rightarrow> error + jsnum" where
  "getTCritical df confidenceLevel =
     (case map_of tValues (df_key df) of
        None \<Rightarrow> Inl TypeError
      | Some row \<Rightarrow> Inr (js_or (map_of row (alpha confidenceLevel)) (Fin 2.042)))"

text \<open>The entry of the table under a key and an alpha, if there is one.\<close>

definition table_entry :: "int \<Rightarrow> jsnum \<Rightarrow> jsnum option" where
  "table_entry k a = (case map_of tValues k of None \<Rightarrow> None | Some row \<Rightarrow> map_of row a)"

text \<open>All the entries of the table, row by row.\<close>

definition table_values :: "jsnum list" where
  "table_values = concat (map (\<lambda>(k, row). map snd row) tValues)"

text \<open>
  The number of a table entry that is a finite number (0 where there is no such
  entry): the entries are read through it in the statements about the table.
\<close>

definition entry_val :: "int \<Rightarrow> jsnum \<Rightarrow> real" where
  "entry_val k a = (case table_entry k a of Some (Fin x) \<Rightarrow> x | _ \<Rightarrow> 0)"

section \<open>The estimator: \<open>calculateCI\<close>\<close>

text \<open>
  An element of \<open>parsedTimes\<close>. Its third field, the display string \<open>formatted\<close>, is
  presentation only (no computation reads it) and is left out.
\<close>

record observation =
  raw :: jsnum
  lineNumber :: nat

text \<open>The object that \<open>calculateCI\<close> returns.\<close>

record estimation_result =
  res_n :: nat
  res_geometricMean :: jsnum
  res_arithmeticMean :: jsnum
  res_logMean :: jsnum
  res_logSD :: jsnum
  res_sem :: jsnum
  res_df :: int
  res_tCritical :: jsnum
  res_margin :: jsnum
  res_ciLow :: jsnum
  res_ciHigh :: jsnum
  res_confidenceLevel :: jsnum

text \<open>
  The functions of \<open>Math\<close> that the program calls. ECMAScript leaves their values on
  finite numbers to the implementation, so they are a parameter of the program.
\<close>

record mathlib =
  lib_log :: "jsnum \<Rightarrow> jsnum"
  lib_exp :: "jsnum \<Rightarrow> jsnum"
  lib_sqrt :: "jsnum \<Rightarrow> jsnum"
  lib_pow :: "jsnum \<Rightarrow> nat \<Rightarrow> jsnum"

text \<open>
  The body of the memoised \<open>calculateCI\<close> in the arithmetic of the doubles, as a
  function of the two state variables it reads (\<open>times'\<close> and \<open>sum'\<close> stand for the
  source's \<open>times\<close> and \<open>sum\<close>). \<open>null\<close> is \<open>None\<close>; \<open>reduce\<close> with an initial
  value is a left fold; an error of \<open>getTCritical\<close> propagates; \<open>n\<close> and \<open>n - 1\<close> are
  integers, which are exact.
\<close>

definition calculateCI_fp ::
  "mathlib \<Rightarrow> observation list \<Rightarrow> jsnum \<Rightarrow> error + estimation_result option" where
  "calculateCI_fp lib parsedTimes confidenceLevel =
     (if length parsedTimes < 2 then Inr None
      else
        let times' = map raw parsedTimes;
            n = length times';
            logTimes = map (\<lambda>t. lib_log lib t) times';
            logMean = fl_div (foldl (\<lambda>sum' val. fl_add sum' val) (Fin 0) logTimes) (Fin (real n));
            logVariance =
              fl_div (foldl (\<lambda>sum' val. fl_add sum' (lib_pow lib (fl_sub val logMean) 2)) (Fin 0) logTimes)
                     (Fin (real n - 1));
            logSD = lib_sqrt lib logVariance;
            sem = fl_div logSD (lib_sqrt lib (Fin (real n)));
            df = int n - 1
        in case getTCritical df confidenceLevel of
             Inl e \<Rightarrow> Inl e
           | Inr tCritical \<Rightarrow>
               let margin = fl_mul tCritical sem;
                   logLow = fl_sub logMean margin;
                   logHigh = fl_add logMean margin;
                   geometricMean = lib_exp lib logMean;
                   ciLow = lib_exp lib logLow;
                   ciHigh = lib_exp lib logHigh;
                   arithmeticMean = fl_div (foldl (\<lambda>sum' val. fl_add sum' val) (Fin 0) times') (Fin (real n))
               in Inr (Some \<lparr>res_n = n, res_geometricMean = geometricMean,
                             res_arithmeticMean = arithmeticMean, res_logMean = logMean,
                             res_logSD = logSD, res_sem = sem, res_df = df,
                             res_tCritical = tCritical, res_margin = margin,
                             res_ciLow = ciLow, res_ciHigh = ciHigh,
                             res_confidenceLevel = confidenceLevel\<rparr>))"



section \<open>The parser: \<open>parseTimeData\<close>\<close>

text \<open>
  A JavaScript string is a sequence of UTF-16 code units, here natural numbers.
  \<open>js_string\<close> gives the string of a literal of characters below 256.
\<close>

type_synonym jsstring = "nat list"

definition js_string :: "string \<Rightarrow> jsstring" where
  "js_string s = map of_char s"

text \<open>
  The white space that \<open>trim\<close> and \<open>parseFloat\<close> strip: TAB, LF, VT, FF, CR, SPACE,
  NO-BREAK SPACE, U+1680, U+2000 to U+200A, the line and paragraph separators U+2028 and
  U+2029, U+202F, U+205F, U+3000 and U+FEFF.
\<close>

definition is_ws :: "nat \<Rightarrow> bool" where
  "is_ws c \<longleftrightarrow>
     c \<in> {9, 10, 11, 12, 13, 32, 160, 5760, 8232, 8233, 8239, 8287, 12288, 65279}
     \<or> (8192 \<le> c \<and> c \<le> 8202)"

text \<open>\<open>s.trim()\<close>.\<close>

definition trim :: "jsstring \<Rightarrow> jsstring" where
  "trim s = rev (dropWhile is_ws (rev (dropWhile is_ws s)))"

text \<open>\<open>s.split('\n')\<close>: the pieces between the line feeds; there is always one at least.\<close>

fun js_split :: "jsstring \<Rightarrow> jsstring list" where
  "js_split [] = [[]]"
| "js_split (c # cs) =
     (if c = 10 then [] # js_split cs
      else (case js_split cs of [] \<Rightarrow> [[c]] | l # ls \<Rightarrow> (c # l) # ls))"

definition is_digit :: "nat \<Rightarrow> bool" where
  "is_digit c \<longleftrightarrow> 48 \<le> c \<and> c \<le> 57"

text \<open>The number that a sequence of decimal digits denotes (0 for none).\<close>

definition digits_value :: "jsstring \<Rightarrow> nat" where
  "digits_value ds = foldl (\<lambda>a c. 10 * a + (c - 48)) 0 ds"

text \<open>
  The exponent part of a decimal literal at the head of \<open>s\<close>: \<open>e\<close> or \<open>E\<close>, an
  optional sign and at least one digit. Anything else is no exponent part, so the
  exponent is 0.
\<close>

definition exponent_part :: "jsstring \<Rightarrow> int" where
  "exponent_part s =
     (if take 1 s = js_string ''e'' \<or> take 1 s = js_string ''E'' then
        (if take 1 (drop 1 s) = js_string ''-''
         then - int (digits_value (takeWhile is_digit (drop 2 s)))
         else if take 1 (drop 1 s) = js_string ''+''
         then int (digits_value (takeWhile is_digit (drop 2 s)))
         else int (digits_value (takeWhile is_digit (drop 1 s))))
      else 0)"

definition scale10 :: "real \<Rightarrow> int \<Rightarrow> real" where
  "scale10 m e = (if 0 \<le> e then m * 10 ^ nat e else m / 10 ^ nat (- e))"

text \<open>
  The built-in \<open>parseFloat\<close> of ECMAScript: leading white space is skipped, then the
  longest prefix that is a \<open>StrDecimalLiteral\<close> is read: an optional sign followed by
  \<open>Infinity\<close> or by digits with an optional fraction and an optional exponent part
  (\<open>5\<close>, \<open>5.\<close>, \<open>5.25\<close>, \<open>.25\<close>, \<open>5e3\<close>). What follows the prefix is ignored; where there
  is no such prefix the result is \<open>NaN\<close>. The result is the Number value for the decimal
  value of the prefix: the nearest double, \<open>Infinity\<close> for a value too large (\<open>1e309\<close>)
  and zero for one too small (\<open>1e-324\<close>). (Beyond 20 significant digits ECMAScript
  allows an implementation to round less exactly.)
\<close>

definition parseFloat :: "jsstring \<Rightarrow> jsnum" where
  "parseFloat inputString =
     (let trimmed = dropWhile is_ws inputString;
          negative = (take 1 trimmed = js_string ''-'');
          unsigned = (if take 1 trimmed = js_string ''-'' \<or> take 1 trimmed = js_string ''+''
                      then drop 1 trimmed else trimmed)
      in if take 8 unsigned = js_string ''Infinity'' then (if negative then NegInf else PosInf)
         else
           let intDigits = takeWhile is_digit unsigned;
               afterInt = dropWhile is_digit unsigned;
               hasDot = (take 1 afterInt = js_string ''.'');
               fracDigits = (if hasDot then takeWhile is_digit (drop 1 afterInt) else []);
               afterFrac = (if hasDot then dropWhile is_digit (drop 1 afterInt) else afterInt)
           in if intDigits = [] \<and> fracDigits = [] then NaN
              else
                let mantissa = real (digits_value intDigits)
                               + real (digits_value fracDigits) / 10 ^ length fracDigits;
                    v = double_of (scale10 mantissa (exponent_part afterFrac))
                in if negative then js_neg v else v)"

text \<open>
  The callback of \<open>lines.forEach((line, index) => ...)\<close>, run over the lines from
  \<open>index\<close> on; \<open>times'\<close> is the array \<open>times\<close> built so far and \<open>push\<close> appends to it.
\<close>

fun forEach_line :: "jsstring list \<Rightarrow> nat \<Rightarrow> observation list \<Rightarrow> observation list" where
  "forEach_line [] index times' = times'"
| "forEach_line (line # rest) index times' =
     (let trimmed = trim line in
      forEach_line rest (index + 1)
        (if trimmed \<noteq> [] then
           (let v = parseFloat trimmed in
            if \<not> isNaN v \<and> js_gt v (Fin 0)
            then times' @ [\<lparr>raw = v, lineNumber = index + 1\<rparr>]
            else times')
         else times'))"

text \<open>
  \<open>parseTimeData\<close>: the value it stores with \<open>setParsedTimes\<close>, which is the new
  \<open>parsedTimes\<close>.
\<close>

definition parseTimeData :: "jsstring \<Rightarrow> observation list" where
  "parseTimeData input =
     (if trim input = [] then []
      else forEach_line (js_split input) 0 [])"

section \<open>The specification's formulas\<close>

text \<open>
  The bucketing policy in the specification's words: the key is \<open>df\<close> itself up to 10,
  15 above 10 and up to 15, 20 above 15 and up to 20, 25 above 20 and up to 25, and 30
  above 25.
\<close>

definition spec_df_key :: "int \<Rightarrow> int" where
  "spec_df_key df =
     (if df \<le> 10 then df
      else if 10 < df \<and> df \<le> 15 then 15
      else if 15 < df \<and> df \<le> 20 then 20
      else if 20 < df \<and> df \<le> 25 then 25
      else 30)"





text \<open>
  The specification's algorithm in the arithmetic of the doubles (its numeric
  semantics): the sum of a sequence, taken in its order; the mean; the sample variance
  with Bessel's correction; and steps 1 to 11 with the result record, for a sample of
  values, a confidence level and the critical value that belongs to them.
\<close>

definition fl_sum :: "jsnum list \<Rightarrow> jsnum" where
  "fl_sum xs = foldl fl_add (Fin 0) xs"

definition fl_mean :: "jsnum list \<Rightarrow> jsnum" where
  "fl_mean xs = fl_div (fl_sum xs) (Fin (real (length xs)))"

definition fl_variance :: "mathlib \<Rightarrow> jsnum list \<Rightarrow> jsnum" where
  "fl_variance lib ls =
     fl_div (fl_sum (map (\<lambda>l. lib_pow lib (fl_sub l (fl_mean ls)) 2) ls))
            (Fin (real (length ls) - 1))"

definition spec_estimate_fp :: "mathlib \<Rightarrow> jsnum list \<Rightarrow> jsnum \<Rightarrow> jsnum \<Rightarrow> estimation_result" where
  "spec_estimate_fp lib xs confidenceLevel tCritical =
     (let n = length xs;
          logTimes = map (lib_log lib) xs;
          logMean = fl_mean logTimes;
          logVariance = fl_variance lib logTimes;
          logSD = lib_sqrt lib logVariance;
          standardErrorOfLogMean = fl_div logSD (lib_sqrt lib (Fin (real n)));
          degreesOfFreedom = int n - 1;
          marginInLogSpace = fl_mul tCritical standardErrorOfLogMean;
          logLow = fl_sub logMean marginInLogSpace;
          logHigh = fl_add logMean marginInLogSpace
      in \<lparr>res_n = n, res_geometricMean = lib_exp lib logMean,
          res_arithmeticMean = fl_mean xs, res_logMean = logMean,
          res_logSD = logSD, res_sem = standardErrorOfLogMean,
          res_df = degreesOfFreedom, res_tCritical = tCritical,
          res_margin = marginInLogSpace, res_ciLow = lib_exp lib logLow,
          res_ciHigh = lib_exp lib logHigh, res_confidenceLevel = confidenceLevel\<rparr>)"

text \<open>
  A library for the examples: the exact functions, rounded to a double.
\<close>

definition rounded_lib :: mathlib where
  "rounded_lib =
     \<lparr>lib_log = (\<lambda>a. fl_round (Math_log a)), lib_exp = (\<lambda>a. fl_round (Math_exp a)),
      lib_sqrt = (\<lambda>a. fl_round (Math_sqrt a)), lib_pow = (\<lambda>a k. fl_round (Math_pow a k))\<rparr>"

text \<open>
  The lines that the parser keeps: not empty once trimmed, and \<open>parseFloat\<close> of the
  trimmed line is a number (not \<open>NaN\<close>) greater than 0.
\<close>

definition line_accepted :: "jsstring \<Rightarrow> bool" where
  "line_accepted line \<longleftrightarrow>
     trim line \<noteq> [] \<and> \<not> isNaN (parseFloat (trim line)) \<and> js_gt (parseFloat (trim line)) (Fin 0)"

text \<open>
  The same with the specification's condition on the value: finite and greater than 0.
\<close>

definition spec_line_valid :: "jsstring \<Rightarrow> bool" where
  "spec_line_valid line \<longleftrightarrow>
     trim line \<noteq> [] \<and> isFinite (parseFloat (trim line)) \<and> js_gt (parseFloat (trim line)) (Fin 0)"

text \<open>
  The sample as a function of the text: the accepted lines in their order, each with
  its value and its 1-based position among all the lines.
\<close>

definition accepted_lines :: "jsstring \<Rightarrow> observation list" where
  "accepted_lines input =
     map (\<lambda>(i, line). \<lparr>raw = parseFloat (trim line), lineNumber = i + 1\<rparr>)
         (filter (\<lambda>(i, line). line_accepted line) (enumerate 0 (js_split input)))"

section \<open>Facts about rounding\<close>

text \<open>
  The binade of a number fixes its rounding: with \<open>2 ^ e \<le> |x| < 2 ^ (e + 1)\<close> the
  Number value for \<open>x\<close> is the multiple of \<open>2 ^ (max e (-1022) - 52)\<close> nearest to \<open>x\<close>.
  The values below are those of the examples: numbers that are doubles, the double next
  to one tenth, a tie, an underflow and two overflows.
\<close>

lemma floor_log2_eq:
  assumes "2 powi e \<le> \<bar>x\<bar>" and "\<bar>x\<bar> < 2 powi (e + 1)"
  shows "\<lfloor>log 2 \<bar>x\<bar>\<rfloor> = e"
proof -
  have "0 < (2::real) powi e" by simp
  then have pos: "0 < \<bar>x\<bar>" using assms(1) by linarith
  have "2 powr real_of_int e \<le> \<bar>x\<bar>" "\<bar>x\<bar> < 2 powr real_of_int (e + 1)"
    using assms by (simp_all only: powr_real_of_int' [of 2, simplified])
  moreover have "(1::real) < 2" by simp
  ultimately show ?thesis
    using floor_log_eq_powr_iff [OF pos, of 2 e] by blast
qed

lemma double_of_binade:
  assumes "2 powi e \<le> \<bar>x\<bar>" and "\<bar>x\<bar> < 2 powi (e + 1)"
  shows "double_of x =
    (let q = 2 powi (max e (- 1022) - 52);
         y = real_of_int (round_half_even (x / q)) * q
     in if 2 powi 1024 \<le> \<bar>y\<bar> then (if 0 < x then PosInf else NegInf) else Fin y)"
proof -
  have "0 < (2::real) powi e" by simp
  then have "0 < \<bar>x\<bar>" using assms(1) by linarith
  then have "x \<noteq> 0" by simp
  then show ?thesis
    by (simp add: double_of_def quantum_def binade_def floor_log2_eq [OF assms] Let_def)
qed

lemma double_of_exact:
  assumes "2 powi e \<le> \<bar>x\<bar>" and "\<bar>x\<bar> < 2 powi (e + 1)" and "- 1022 \<le> e" and "e \<le> 1023"
    and "x / 2 powi (e - 52) = of_int n"
  shows "double_of x = Fin x"
proof -
  have m: "max e (- 1022) = e" using assms(3) by simp
  have q: "(2::real) powi (e - 52) \<noteq> 0" by simp
  have x: "of_int n * 2 powi (e - 52) = x" using assms(5) q by (simp add: field_simps)
  have r: "round_half_even (real_of_int n) = n" by (simp add: round_half_even_def)
  have "(2::real) powi (e + 1) \<le> 2 powi 1024" using assms(4) by (intro power_int_increasing) simp_all
  then have lt: "\<not> 2 powi 1024 \<le> \<bar>x\<bar>" using assms(2) by linarith
  show ?thesis
    unfolding double_of_binade [OF assms(1,2)] m Let_def assms(5) r x using lt by simp
qed

lemma double_of_values:
  "double_of 1 = Fin 1" "double_of 5 = Fin 5" "double_of 7 = Fin 7" "double_of 15 = Fin 15"
  "double_of 122 = Fin 122" "double_of (101 / 2) = Fin (101 / 2)"
proof -
  show "double_of 1 = Fin 1"
    by (rule double_of_exact [where e = 0 and n = "2 ^ 52"]) (simp_all add: power_int_minus field_simps)
  show "double_of 5 = Fin 5"
    by (rule double_of_exact [where e = 2 and n = "5 * 2 ^ 50"]) (simp_all add: power_int_minus field_simps)
  show "double_of 7 = Fin 7"
    by (rule double_of_exact [where e = 2 and n = "7 * 2 ^ 50"]) (simp_all add: power_int_minus field_simps)
  show "double_of 15 = Fin 15"
    by (rule double_of_exact [where e = 3 and n = "15 * 2 ^ 49"]) (simp_all add: power_int_minus field_simps)
  show "double_of 122 = Fin 122"
    by (rule double_of_exact [where e = 6 and n = "122 * 2 ^ 46"]) (simp_all add: power_int_minus field_simps)
  show "double_of (101 / 2) = Fin (101 / 2)"
    by (rule double_of_exact [where e = 5 and n = "101 * 2 ^ 46"]) (simp_all add: power_int_minus field_simps)
qed


lemma double_of_powers:
  "double_of (2 ^ 52) = Fin (2 ^ 52)" "double_of (2 ^ 53) = Fin (2 ^ 53)"
  "double_of (2 ^ 1023) = Fin (2 ^ 1023)"
proof -
  show "double_of (2 ^ 52) = Fin (2 ^ 52)"
    by (rule double_of_exact [where e = 52 and n = "2 ^ 52"]) simp_all
  show "double_of (2 ^ 53) = Fin (2 ^ 53)"
    by (rule double_of_exact [where e = 53 and n = "2 ^ 52"]) simp_all
  show "double_of (2 ^ 1023) = Fin (2 ^ 1023)"
    by (rule double_of_exact [where e = 1023 and n = "2 ^ 52"]) simp_all
qed

lemma double_of_tenth: "double_of (1 / 10) = Fin (3602879701896397 / 2 ^ 55)"
proof -
  have q: "(2::real) powi (max (- 4) (- 1022) - 52) = 1 / 2 ^ 56"
    by (simp add: power_int_minus field_simps)
  have r: "round_half_even (1 / 10 / (1 / 2 ^ 56)) = 7205759403792794"
    by (simp add: round_half_even_def)
  have b: "2 powi (- 4) \<le> \<bar>1 / 10 :: real\<bar>" "\<bar>1 / 10 :: real\<bar> < 2 powi (- 4 + 1)"
    by (simp_all add: power_int_minus)
  show ?thesis
    unfolding double_of_binade [OF b] Let_def q r by simp
qed


lemma double_of_underflow: "double_of (1 / 10 ^ 324) = Fin 0"
proof -
  have q: "(2::real) powi (max (- 1077) (- 1022) - 52) = 1 / 2 ^ 1074"
    by (simp add: power_int_minus field_simps)
  have r: "round_half_even (1 / 10 ^ 324 / (1 / 2 ^ 1074)) = 0"
    by (simp add: round_half_even_def)
  have b: "2 powi (- 1077) \<le> \<bar>1 / 10 ^ 324 :: real\<bar>"
    "\<bar>1 / 10 ^ 324 :: real\<bar> < 2 powi (- 1077 + 1)"
    by (simp_all add: power_int_minus field_simps)
  show ?thesis
    unfolding double_of_binade [OF b] Let_def q r by simp
qed

lemma double_of_overflow: "double_of (10 ^ 309) = PosInf"
proof -
  have q: "(2::real) powi (max 1026 (- 1022) - 52) = 2 ^ 974"
    by simp
  have r: "round_half_even (10 ^ 309 / 2 ^ 974) = 6263026125028040"
    by (simp add: round_half_even_def)
  have b: "2 powi 1026 \<le> \<bar>10 ^ 309 :: real\<bar>" "\<bar>10 ^ 309 :: real\<bar> < 2 powi (1026 + 1)"
    by simp_all
  show ?thesis
    unfolding double_of_binade [OF b] Let_def q r by simp
qed


lemma double_of_top: "double_of (2 ^ 1024) = PosInf"
proof -
  have q: "(2::real) powi (max 1024 (- 1022) - 52) = 2 ^ 972"
    by simp
  have r: "round_half_even (2 ^ 1024 / 2 ^ 972) = 2 ^ 52"
    by (simp add: round_half_even_def)
  have b: "2 powi 1024 \<le> \<bar>2 ^ 1024 :: real\<bar>" "\<bar>2 ^ 1024 :: real\<bar> < 2 powi (1024 + 1)"
    by simp_all
  show ?thesis
    unfolding double_of_binade [OF b] Let_def q r by simp
qed



lemma fl_mean_overflow: "fl_mean [Fin (2 ^ 1023), Fin (2 ^ 1023)] = PosInf"
  using double_of_top double_of_powers
  by (simp add: fl_mean_def fl_sum_def fl_add_def fl_div_def fl_round_def)

section \<open>Facts about the table\<close>

text \<open>
  For a number of degrees of freedom that is at least 1 the key is one of the 14 keys of
  the table, and each row has the three alphas, with positive values that grow as alpha
  shrinks.
\<close>

lemma df_key_eq_spec: "df_key df = spec_df_key df"
  by (simp add: df_key_def spec_df_key_def)

lemma df_key_cases:
  assumes "1 \<le> df"
  shows "df_key df \<in> {1,2,3,4,5,6,7,8,9,10,15,20,25,30}"
proof -
  have "df = 1 \<or> df = 2 \<or> df = 3 \<or> df = 4 \<or> df = 5 \<or> df = 6 \<or> df = 7
    \<or> df = 8 \<or> df = 9 \<or> df = 10 \<or> 10 < df" using assms by arith
  then show ?thesis by (auto simp add: df_key_def)
qed

lemma row_exists:
  assumes "k \<in> {1,2,3,4,5,6,7,8,9,10,15,20,25,30}"
  shows "map_of tValues k =
    Some [(Fin 0.20, Fin (entry_val k (Fin 0.20))), (Fin 0.10, Fin (entry_val k (Fin 0.10))),
          (Fin 0.05, Fin (entry_val k (Fin 0.05)))]"
  using assms by (auto simp add: tValues_def entry_val_def table_entry_def)

lemma row_mono:
  assumes "k \<in> {1,2,3,4,5,6,7,8,9,10,15,20,25,30}"
  shows "0 < entry_val k (Fin 0.20) \<and> entry_val k (Fin 0.20) < entry_val k (Fin 0.10)
    \<and> entry_val k (Fin 0.10) < entry_val k (Fin 0.05)"
  using assms by (auto simp add: tValues_def entry_val_def table_entry_def)

lemma row_in:
  assumes "k \<in> {1,2,3,4,5,6,7,8,9,10,15,20,25,30}"
  shows "Fin (entry_val k (Fin 0.20)) \<in> set table_values
    \<and> Fin (entry_val k (Fin 0.10)) \<in> set table_values
    \<and> Fin (entry_val k (Fin 0.05)) \<in> set table_values"
  using assms by (auto simp add: tValues_def entry_val_def table_entry_def table_values_def)

lemma alpha_cases:
  "alpha c = Fin 0.20 \<longleftrightarrow> c = Fin 80"
  "alpha c = Fin 0.10 \<longleftrightarrow> c = Fin 90"
  "alpha c = Fin 0.05 \<longleftrightarrow> c = Fin 95"
  by (cases c; auto simp add: alpha_def js_sub_def)+

lemma alpha_levels:
  "alpha (Fin 80) = Fin 0.20" "alpha (Fin 90) = Fin 0.10" "alpha (Fin 95) = Fin 0.05"
  by (simp_all add: alpha_def js_sub_def)

lemma table_entry_row:
  assumes "1 \<le> df"
  shows "table_entry (df_key df) a =
    (if a = Fin 0.20 then Some (Fin (entry_val (df_key df) (Fin 0.20)))
     else if a = Fin 0.10 then Some (Fin (entry_val (df_key df) (Fin 0.10)))
     else if a = Fin 0.05 then Some (Fin (entry_val (df_key df) (Fin 0.05)))
     else None)"
  unfolding table_entry_def row_exists [OF df_key_cases [OF assms]] by simp


lemma getTCritical_table:
  assumes "1 \<le> df"
  shows "getTCritical df c = Inr (js_or (table_entry (df_key df) (alpha c)) (Fin 2.042))"
  unfolding getTCritical_def table_entry_def row_exists [OF df_key_cases [OF assms]] by simp

lemma js_or_pos: "0 < x \<Longrightarrow> js_or (Some (Fin x)) d = Fin x"
  by (simp add: js_or_def)

lemma getTCritical_levels:
  assumes "1 \<le> df"
  shows "getTCritical df (Fin 80) = Inr (Fin (entry_val (df_key df) (Fin 0.20)))"
    and "getTCritical df (Fin 90) = Inr (Fin (entry_val (df_key df) (Fin 0.10)))"
    and "getTCritical df (Fin 95) = Inr (Fin (entry_val (df_key df) (Fin 0.05)))"
  using row_mono [OF df_key_cases [OF assms]]
  by (simp_all add: getTCritical_table [OF assms] table_entry_row [OF assms] alpha_levels js_or_pos)

lemma getTCritical_other:
  assumes "1 \<le> df" and "c \<notin> {Fin 95, Fin 90, Fin 80}"
  shows "table_entry (df_key df) (alpha c) = None" and "getTCritical df c = Inr (Fin 2.042)"
proof -
  have ne: "alpha c \<noteq> Fin 0.20" "alpha c \<noteq> Fin 0.10" "alpha c \<noteq> Fin 0.05"
    using assms(2) alpha_cases [of c] by blast+
  show none: "table_entry (df_key df) (alpha c) = None"
    by (simp only: table_entry_row [OF assms(1)] ne if_False)
  show "getTCritical df c = Inr (Fin 2.042)"
    by (simp only: getTCritical_table [OF assms(1)] none js_or_def option.case)
qed

lemma getTCritical_pos:
  assumes "1 \<le> df"
  shows "\<exists>t. getTCritical df c = Inr (Fin t) \<and> 0 < t \<and> Fin t \<in> set table_values \<union> {Fin 2.042}"
proof (cases "c \<in> {Fin 95, Fin 90, Fin 80}")
  case True
  then show ?thesis
    using getTCritical_levels [OF assms] row_mono [OF df_key_cases [OF assms]]
      row_in [OF df_key_cases [OF assms]]
    by auto
next
  case False
  have "getTCritical df c = Inr (Fin 2.042) \<and> (0::real) < 2.042
      \<and> Fin 2.042 \<in> set table_values \<union> {Fin 2.042}"
    using getTCritical_other(2) [OF assms False] by simp
  then show ?thesis by blast
qed

lemma getTCritical_defined:
  assumes "2 \<le> length s"
  shows "\<exists>t. getTCritical (int (length s) - 1) c = Inr (Fin t) \<and> 0 < t"
proof -
  have "1 \<le> int (length s) - 1" using assms by simp
  from getTCritical_pos [OF this, of c] show ?thesis by blast
qed

section \<open>The estimator in the arithmetic of the doubles\<close>

text \<open>
  The program and the specification's algorithm give the same record, whatever the
  library.
\<close>

lemma calculateCI_fp_eq:
  assumes "2 \<le> length s" and "getTCritical (int (length s) - 1) c = Inr t"
  shows "calculateCI_fp lib s c = Inr (Some (spec_estimate_fp lib (map raw s) c t))"
  using assms
  by (simp add: calculateCI_fp_def spec_estimate_fp_def fl_mean_def fl_variance_def fl_sum_def
      Let_def foldl_map)

lemma spec_estimate_fp_fields:
  "res_n (spec_estimate_fp lib xs c t) = length xs"
  "res_df (spec_estimate_fp lib xs c t) = int (length xs) - 1"
  "res_arithmeticMean (spec_estimate_fp lib xs c t) = fl_mean xs"
  "res_tCritical (spec_estimate_fp lib xs c t) = t"
  "res_confidenceLevel (spec_estimate_fp lib xs c t) = c"
  by (simp_all add: spec_estimate_fp_def Let_def)

section \<open>The estimator in exact arithmetic\<close>












subsection \<open>The margin is never negative\<close>





subsection \<open>The width never decreases\<close>




section \<open>The parser as a filter of the lines\<close>

lemma forEach_line_accepted:
  "forEach_line ls index acc =
     acc @ map (\<lambda>(i, line). \<lparr>raw = parseFloat (trim line), lineNumber = i + 1\<rparr>)
              (filter (\<lambda>(i, line). line_accepted line) (enumerate index ls))"
  by (induction ls arbitrary: index acc) (simp_all add: Let_def line_accepted_def)

lemma trim_empty_iff: "trim s = [] \<longleftrightarrow> (\<forall>c\<in>set s. is_ws c)"
proof
  assume "trim s = []"
  then have all: "\<forall>c\<in>set (dropWhile is_ws s). is_ws c"
    by (simp add: trim_def dropWhile_eq_Nil_conv)
  have "dropWhile is_ws s = []"
  proof (rule ccontr)
    assume ne: "dropWhile is_ws s \<noteq> []"
    then have "\<not> is_ws (hd (dropWhile is_ws s))" by (rule hd_dropWhile)
    moreover have "hd (dropWhile is_ws s) \<in> set (dropWhile is_ws s)" using ne by simp
    ultimately show False using all by blast
  qed
  then show "\<forall>c\<in>set s. is_ws c" by (simp only: dropWhile_eq_Nil_conv)
next
  assume "\<forall>c\<in>set s. is_ws c"
  then have d: "dropWhile is_ws s = []" by (simp only: dropWhile_eq_Nil_conv)
  show "trim s = []" unfolding trim_def d by simp
qed

lemma js_split_chars: "\<forall>l\<in>set (js_split s). set l \<subseteq> set s"
proof (induction s)
  case Nil
  then show ?case by simp
next
  case (Cons c cs)
  show ?case
  proof (cases "js_split cs")
    case Nil
    then show ?thesis using Cons by auto
  next
    case (Cons l ls)
    then have "set l \<subseteq> set cs" "\<forall>l'\<in>set ls. set l' \<subseteq> set cs"
      using Cons.IH by simp_all
    then show ?thesis using Cons by auto
  qed
qed

lemma accepted_lines_blank:
  assumes "trim input = []"
  shows "accepted_lines input = []"
proof -
  have ws: "\<forall>c\<in>set input. is_ws c" using assms by (simp add: trim_empty_iff)
  have "\<not> line_accepted line" if "line \<in> set (js_split input)" for line
  proof -
    have "\<forall>c\<in>set line. is_ws c" using js_split_chars [of input] that ws by blast
    then have "trim line = []" by (simp add: trim_empty_iff)
    then show ?thesis by (simp add: line_accepted_def)
  qed
  then have "filter (\<lambda>(i, line). line_accepted line) (enumerate 0 (js_split input)) = []"
    by (auto simp add: filter_empty_conv in_set_enumerate_eq)
  then show ?thesis by (simp add: accepted_lines_def)
qed

lemma parseTimeData_eq: "parseTimeData input = accepted_lines input"
proof (cases "trim input = []")
  case True
  then show ?thesis by (simp add: parseTimeData_def accepted_lines_blank)
next
  case False
  then show ?thesis by (simp add: parseTimeData_def forEach_line_accepted accepted_lines_def)
qed

lemma line_accepted_iff:
  "line_accepted line \<longleftrightarrow>
     trim line \<noteq> [] \<and> (parseFloat (trim line) = PosInf \<or> (\<exists>x. parseFloat (trim line) = Fin x \<and> 0 < x))"
  by (cases "parseFloat (trim line)") (simp_all add: line_accepted_def js_gt_def)

lemma lineNumber_accepted:
  "(\<exists>ob\<in>set (accepted_lines input). lineNumber ob = i + 1 \<and> raw ob = v) \<longleftrightarrow>
     i < length (js_split input) \<and> line_accepted (js_split input ! i)
       \<and> v = parseFloat (trim (js_split input ! i))"
  by (auto simp add: accepted_lines_def in_set_enumerate_eq Bex_def image_iff)

text \<open>
  The definitions that the examples evaluate.
\<close>

lemmas parse_eval = parseTimeData_def trim_def parseFloat_def is_ws_def is_digit_def
  digits_value_def exponent_part_def scale10_def js_gt_def js_string_def

section \<open>The claims\<close>



text \<open>
  C2, amended. \<open>parseTimeData\<close> keeps a line if and only if the line is not empty once
  trimmed and \<open>parseFloat\<close> of the trimmed line is a number greater than 0, which is a
  finite positive double or \<open>+Infinity\<close> (the program tests \<open>isNaN\<close>, not finiteness).
  The kept lines come in the order of the text, none dropped or merged, each with its
  1-based position among all the lines; the example text yields 122 and 50.5.
\<close>

theorem parseTimeData_accepted:
  "parseTimeData input = accepted_lines input
   \<and> ((\<exists>ob\<in>set (parseTimeData input). lineNumber ob = i + 1 \<and> raw ob = v) \<longleftrightarrow>
         i < length (js_split input) \<and> line_accepted (js_split input ! i)
           \<and> v = parseFloat (trim (js_split input ! i)))
   \<and> (line_accepted line \<longleftrightarrow>
         trim line \<noteq> []
           \<and> (parseFloat (trim line) = PosInf \<or> (\<exists>x. parseFloat (trim line) = Fin x \<and> 0 < x)))
   \<and> parseTimeData (js_string ''122\<newline>0\<newline>-5\<newline>abc\<newline>50.5\<newline>'')
        = [\<lparr>raw = Fin 122, lineNumber = 1\<rparr>, \<lparr>raw = Fin 50.5, lineNumber = 5\<rparr>]"
proof -
  have a: "parseTimeData input = accepted_lines input" by (rule parseTimeData_eq)
  have b: "(\<exists>ob\<in>set (parseTimeData input). lineNumber ob = i + 1 \<and> raw ob = v) \<longleftrightarrow>
         i < length (js_split input) \<and> line_accepted (js_split input ! i)
           \<and> v = parseFloat (trim (js_split input ! i))"
    unfolding a by (rule lineNumber_accepted)
  have c: "line_accepted line \<longleftrightarrow>
         trim line \<noteq> []
           \<and> (parseFloat (trim line) = PosInf \<or> (\<exists>x. parseFloat (trim line) = Fin x \<and> 0 < x))"
    by (rule line_accepted_iff)
  have d: "parseTimeData (js_string ''122\<newline>0\<newline>-5\<newline>abc\<newline>50.5\<newline>'')
        = [\<lparr>raw = Fin 122, lineNumber = 1\<rparr>, \<lparr>raw = Fin 50.5, lineNumber = 5\<rparr>]"
    by (simp add: parse_eval double_of_values double_of_def [of 0])
  from a b c d show ?thesis by blast
qed

text \<open>
  A text with a blank line, trailing words, padding by U+2003 and by a space, an
  exponent, the line \<open>Infinity\<close>, the line \<open>1e-324\<close>, whose value rounds to zero and
  which is dropped, and the line \<open>1e309\<close>, whose value rounds to \<open>Infinity\<close> and which
  is kept.
\<close>

theorem parseTimeData_accepted_witness:
  "parseTimeData (js_string ''5 seconds\<newline>\<newline>Infinity\<newline>'' @ [8195]
                  @ js_string ''7 \<newline>1.5e1x\<newline>1e-324\<newline>1e309'')
     = [\<lparr>raw = Fin 5, lineNumber = 1\<rparr>, \<lparr>raw = PosInf, lineNumber = 3\<rparr>,
        \<lparr>raw = Fin 7, lineNumber = 4\<rparr>, \<lparr>raw = Fin 15, lineNumber = 5\<rparr>,
        \<lparr>raw = PosInf, lineNumber = 7\<rparr>]"
proof -
  have "accepted_lines (js_string ''5 seconds\<newline>\<newline>Infinity\<newline>'' @ [8195]
                  @ js_string ''7 \<newline>1.5e1x\<newline>1e-324\<newline>1e309'')
     = [\<lparr>raw = Fin 5, lineNumber = 1\<rparr>, \<lparr>raw = PosInf, lineNumber = 3\<rparr>,
        \<lparr>raw = Fin 7, lineNumber = 4\<rparr>, \<lparr>raw = Fin 15, lineNumber = 5\<rparr>,
        \<lparr>raw = PosInf, lineNumber = 7\<rparr>]"
    using double_of_underflow double_of_overflow
    by (simp add: accepted_lines_def line_accepted_def enumerate_eq_zip upt_rec parse_eval
        double_of_values)
  then show ?thesis
    using parseTimeData_accepted [of "js_string ''5 seconds\<newline>\<newline>Infinity\<newline>'' @ [8195]
                  @ js_string ''7 \<newline>1.5e1x\<newline>1e-324\<newline>1e309''" 0 "Fin 5" "[]"]
    by simp
qed

text \<open>
  C2 as stated fails: the line \<open>Infinity\<close> is kept although its value is not finite.
\<close>

theorem parseTimeData_accepted_counterexample:
  "js_split (js_string ''Infinity'') = [js_string ''Infinity'']
   \<and> parseTimeData (js_string ''Infinity'') = [\<lparr>raw = PosInf, lineNumber = 1\<rparr>]
   \<and> \<not> isFinite (parseFloat (trim (js_string ''Infinity'')))
   \<and> \<not> spec_line_valid (js_string ''Infinity'')"
  by (simp add: spec_line_valid_def parse_eval)

text \<open>
  C3. The table key follows the bands of the specification: \<open>df\<close> itself up to 10,
  then 15, 20, 25 for the bands ending there, and 30 above 25; \<open>getTCritical\<close> looks
  the value up under that key; and at confidence level 95 the values for 10, 11, 30 and
  50 degrees of freedom are 2.228, 2.131, 2.042 and 2.042.
\<close>

theorem df_key_bands:
  "df_key df = spec_df_key df
   \<and> (df \<le> 10 \<longrightarrow> df_key df = df)
   \<and> (10 < df \<and> df \<le> 15 \<longrightarrow> df_key df = 15)
   \<and> (15 < df \<and> df \<le> 20 \<longrightarrow> df_key df = 20)
   \<and> (20 < df \<and> df \<le> 25 \<longrightarrow> df_key df = 25)
   \<and> (25 < df \<longrightarrow> df_key df = 30)
   \<and> (1 \<le> df \<longrightarrow>
        getTCritical df c = Inr (js_or (table_entry (spec_df_key df) (alpha c)) (Fin 2.042)))
   \<and> getTCritical 10 (Fin 95) = Inr (Fin 2.228)
   \<and> getTCritical 11 (Fin 95) = Inr (Fin 2.131)
   \<and> getTCritical 30 (Fin 95) = Inr (Fin 2.042)
   \<and> getTCritical 50 (Fin 95) = Inr (Fin 2.042)"
proof -
  have bands: "df_key df = spec_df_key df" "df \<le> 10 \<longrightarrow> df_key df = df"
    "10 < df \<and> df \<le> 15 \<longrightarrow> df_key df = 15" "15 < df \<and> df \<le> 20 \<longrightarrow> df_key df = 20"
    "20 < df \<and> df \<le> 25 \<longrightarrow> df_key df = 25" "25 < df \<longrightarrow> df_key df = 30"
    by (simp_all add: df_key_def spec_df_key_def)
  have look: "1 \<le> df \<longrightarrow>
      getTCritical df c = Inr (js_or (table_entry (spec_df_key df) (alpha c)) (Fin 2.042))"
    using getTCritical_table [of df c] by (simp add: df_key_eq_spec)
  have v: "getTCritical 10 (Fin 95) = Inr (Fin 2.228)" "getTCritical 11 (Fin 95) = Inr (Fin 2.131)"
    "getTCritical 30 (Fin 95) = Inr (Fin 2.042)" "getTCritical 50 (Fin 95) = Inr (Fin 2.042)"
    by (simp_all add: getTCritical_def df_key_def tValues_def alpha_def js_sub_def js_or_def)
  from bands look v show ?thesis by blast
qed

text \<open>
  One number of degrees of freedom in each band.
\<close>

theorem df_key_bands_witness:
  "df_key 7 = 7 \<and> df_key 12 = 15 \<and> df_key 18 = 20 \<and> df_key 23 = 25 \<and> df_key 40 = 30
   \<and> getTCritical 12 (Fin 90) = Inr (js_or (table_entry (spec_df_key 12) (alpha (Fin 90))) (Fin 2.042))"
  using df_key_bands [of 7 "Fin 90"] df_key_bands [of 12 "Fin 90"] df_key_bands [of 18 "Fin 90"]
    df_key_bands [of 23 "Fin 90"] df_key_bands [of 40 "Fin 90"]
  by simp

text \<open>
  C4. \<open>calculateCI\<close> returns no result (\<open>null\<close>) for every sample of size 0 or 1 and
  every confidence level, and only then: for every sample of size 2 or more it returns,
  in the arithmetic of the doubles and for any library, the record in which every field
  is the one the algorithm computes, with \<open>n\<close>, \<open>n - 1\<close> degrees of freedom, the
  critical value of \<open>getTCritical\<close> and the confidence level; and it never throws.
\<close>

theorem calculateCI_defined:
  "(length s < 2 \<longrightarrow> calculateCI_fp lib s c = Inr None)
   \<and> (2 \<le> length s \<longrightarrow>
        (\<exists>t. getTCritical (int (length s) - 1) c = Inr t
           \<and> calculateCI_fp lib s c = Inr (Some (spec_estimate_fp lib (map raw s) c t))
           \<and> res_n (spec_estimate_fp lib (map raw s) c t) = length s
           \<and> res_df (spec_estimate_fp lib (map raw s) c t) = int (length s) - 1
           \<and> res_tCritical (spec_estimate_fp lib (map raw s) c t) = t
           \<and> res_confidenceLevel (spec_estimate_fp lib (map raw s) c t) = c))
   \<and> (calculateCI_fp lib s c = Inr None \<longleftrightarrow> length s < 2)
   \<and> calculateCI_fp lib s c \<noteq> Inl e"
proof (cases "length s < 2")
  case True
  then show ?thesis by (simp add: calculateCI_fp_def)
next
  case False
  then have len: "2 \<le> length s" by simp
  obtain t where t: "getTCritical (int (length s) - 1) c = Inr (Fin t)"
    using getTCritical_defined [OF len] by blast
  have r: "calculateCI_fp lib s c = Inr (Some (spec_estimate_fp lib (map raw s) c (Fin t)))"
    by (rule calculateCI_fp_eq [OF len t])
  have f: "res_n (spec_estimate_fp lib (map raw s) c (Fin t)) = length s"
    "res_df (spec_estimate_fp lib (map raw s) c (Fin t)) = int (length s) - 1"
    "res_tCritical (spec_estimate_fp lib (map raw s) c (Fin t)) = Fin t"
    "res_confidenceLevel (spec_estimate_fp lib (map raw s) c (Fin t)) = c"
    by (simp_all add: spec_estimate_fp_def Let_def)
  show ?thesis using len t r f by simp
qed

text \<open>
  The samples of size 0, 1 and 2; the sum of the two values \<open>2 ^ 1023\<close> overflows, so
  the arithmetic mean of that record is \<open>Infinity\<close>.
\<close>

theorem calculateCI_defined_witness:
  "calculateCI_fp rounded_lib [] (Fin 95) = Inr None
   \<and> calculateCI_fp rounded_lib [\<lparr>raw = Fin 122, lineNumber = 1\<rparr>] (Fin 95) = Inr None
   \<and> calculateCI_fp rounded_lib
        [\<lparr>raw = Fin (2 ^ 1023), lineNumber = 1\<rparr>, \<lparr>raw = Fin (2 ^ 1023), lineNumber = 2\<rparr>] (Fin 95)
       = Inr (Some (spec_estimate_fp rounded_lib [Fin (2 ^ 1023), Fin (2 ^ 1023)] (Fin 95) (Fin 12.706)))
   \<and> res_arithmeticMean (spec_estimate_fp rounded_lib [Fin (2 ^ 1023), Fin (2 ^ 1023)] (Fin 95) (Fin 12.706))
       = PosInf"
proof -
  have a: "calculateCI_fp rounded_lib [] (Fin 95) = Inr None"
    using calculateCI_defined [of "[]" rounded_lib "Fin 95" TypeError] by simp
  have b: "calculateCI_fp rounded_lib [\<lparr>raw = Fin 122, lineNumber = 1\<rparr>] (Fin 95) = Inr None"
    using calculateCI_defined [of "[\<lparr>raw = Fin 122, lineNumber = 1\<rparr>]" rounded_lib "Fin 95" TypeError]
    by simp
  have t: "getTCritical (int (length [\<lparr>raw = Fin (2 ^ 1023), lineNumber = 1\<rparr>,
        \<lparr>raw = Fin (2 ^ 1023), lineNumber = 2\<rparr>]) - 1) (Fin 95) = Inr (Fin 12.706)"
    by (simp add: getTCritical_def df_key_def tValues_def alpha_def js_sub_def js_or_def)
  have l: "2 \<le> length [\<lparr>raw = Fin (2 ^ 1023), lineNumber = 1\<rparr>,
        \<lparr>raw = Fin (2 ^ 1023), lineNumber = 2\<rparr>]" by simp
  have g: "map raw [\<lparr>raw = Fin (2 ^ 1023), lineNumber = 1\<rparr>, \<lparr>raw = Fin (2 ^ 1023), lineNumber = 2\<rparr>]
      = [Fin (2 ^ 1023), Fin (2 ^ 1023)]" by simp
  have c: "calculateCI_fp rounded_lib
        [\<lparr>raw = Fin (2 ^ 1023), lineNumber = 1\<rparr>, \<lparr>raw = Fin (2 ^ 1023), lineNumber = 2\<rparr>] (Fin 95)
       = Inr (Some (spec_estimate_fp rounded_lib [Fin (2 ^ 1023), Fin (2 ^ 1023)] (Fin 95) (Fin 12.706)))"
    using calculateCI_defined [of "[\<lparr>raw = Fin (2 ^ 1023), lineNumber = 1\<rparr>,
        \<lparr>raw = Fin (2 ^ 1023), lineNumber = 2\<rparr>]" rounded_lib "Fin 95" TypeError] l
    unfolding t g by (auto simp only: sum.inject)
  have d: "res_arithmeticMean (spec_estimate_fp rounded_lib [Fin (2 ^ 1023), Fin (2 ^ 1023)] (Fin 95) (Fin 12.706))
       = PosInf"
    by (simp only: spec_estimate_fp_fields fl_mean_overflow)
  from a b c d show ?thesis by blast
qed

text \<open>
  C5. For \<open>df \<ge> 1\<close> the function \<open>getTCritical\<close> returns a number and never throws;
  where the table has no entry for the key and alpha, and in particular for every
  confidence level other than 95, 90 and 80 (\<open>NaN\<close> and the infinities included), it
  returns the fallback 2.042.
\<close>

theorem getTCritical_total:
  assumes "1 \<le> df"
  shows "(\<exists>t. getTCritical df c = Inr t)
    \<and> (table_entry (df_key df) (alpha c) = None \<longrightarrow> getTCritical df c = Inr (Fin 2.042))
    \<and> (c \<notin> {Fin 95, Fin 90, Fin 80} \<longrightarrow>
         table_entry (df_key df) (alpha c) = None \<and> getTCritical df c = Inr (Fin 2.042))"
proof (intro conjI impI)
  show "\<exists>t. getTCritical df c = Inr t"
    using getTCritical_table [OF assms] by blast
  show "getTCritical df c = Inr (Fin 2.042)" if "table_entry (df_key df) (alpha c) = None"
    by (simp only: getTCritical_table [OF assms] that js_or_def option.case)
  show "table_entry (df_key df) (alpha c) = None" if "c \<notin> {Fin 95, Fin 90, Fin 80}"
    using getTCritical_other(1) [OF assms that] .
  show "getTCritical df c = Inr (Fin 2.042)" if "c \<notin> {Fin 95, Fin 90, Fin 80}"
    using getTCritical_other(2) [OF assms that] .
qed

text \<open>
  The levels 99 and \<open>NaN\<close> at 4 degrees of freedom.
\<close>

theorem getTCritical_total_witness:
  "(1::int) \<le> 4 \<and> Fin 99 \<notin> {Fin 95, Fin 90, Fin 80}
   \<and> table_entry (df_key 4) (alpha (Fin 99)) = None
   \<and> getTCritical 4 (Fin 99) = Inr (Fin 2.042)
   \<and> getTCritical 4 NaN = Inr (Fin 2.042)"
proof -
  have h: "(1::int) \<le> 4" by simp
  have a: "Fin 99 \<notin> {Fin 95, Fin 90, Fin 80}" and b: "NaN \<notin> {Fin 95, Fin 90, Fin 80}" by simp_all
  show ?thesis
    using h a getTCritical_total [OF h, of "Fin 99"] getTCritical_total [OF h, of NaN] b by blast
qed










end
